theory Spec2Isabelle
  imports Complex_Main
begin

section \<open>The world model of bmpc-jax (src/bmpc\_jax/world\_model.py)\<close>

text \<open>
  A shallow embedding of \<^verbatim>\<open>WorldModel\<close>: its factory \<^verbatim>\<open>create\<close> and its five operations
  \<^verbatim>\<open>encode\<close>, \<^verbatim>\<open>next\<close>, \<^verbatim>\<open>reward\<close>, \<^verbatim>\<open>sample_actions\<close> and \<^verbatim>\<open>V\<close>.

  Arrays are one-dimensional lists of real numbers: the floating-point numbers of the
  program are idealised as reals, so "within tolerance" reads as equality. Python
  integers are \<open>int\<close>. Every exception of the program is a value of type \<open>error\<close>;
  a fallible computation has type \<open>error + 'a\<close> with \<open>Inl\<close> the exception.
\<close>

subsection \<open>Errors\<close>

datatype error =
    ValueError        \<comment> \<open>a negative array size, a tuple unpacked at the wrong length\<close>
  | ShapeMismatch     \<comment> \<open>arrays whose shapes do not fit\<close>
  | InitError         \<comment> \<open>a module initialiser that raises\<close>

definition bind_err :: "error + 'a \<Rightarrow> ('a \<Rightarrow> error + 'b) \<Rightarrow> error + 'b" where
  "bind_err m f = (case m of Inl e \<Rightarrow> Inl e | Inr x \<Rightarrow> f x)"

text \<open>
  Unpacking a sequence into a tuple of two or of five names, as the source does with the
  result of \<^verbatim>\<open>jax.random.split\<close>: any other length raises.
\<close>

fun unpack2 :: "'a list \<Rightarrow> error + ('a \<times> 'a)" where
  "unpack2 [a, b] = Inr (a, b)"
| "unpack2 _ = Inl ValueError"

fun unpack5 :: "'a list \<Rightarrow> error + ('a \<times> 'a \<times> 'a \<times> 'a \<times> 'a)" where
  "unpack5 [a, b, c, d, e] = Inr (a, b, c, d, e)"
| "unpack5 _ = Inl ValueError"

subsection \<open>Arrays and observation trees\<close>

type_synonym array = "real list"

text \<open>\<^verbatim>\<open>jnp.zeros(n)\<close>: raises on a negative size.\<close>

definition jnp_zeros :: "int \<Rightarrow> error + array" where
  "jnp_zeros n = (if n < 0 then Inl ValueError else Inr (replicate (nat n) 0))"

text \<open>
  A PyTree: a leaf or a dictionary of subtrees. \<^verbatim>\<open>jax.tree.map\<close> applies a function to
  every leaf and keeps the structure.
\<close>

datatype 'a pytree = Leaf 'a | Node "(string \<times> 'a pytree) list"

primrec tree_map :: "('a \<Rightarrow> 'b) \<Rightarrow> 'a pytree \<Rightarrow> 'b pytree" where
  "tree_map f (Leaf x) = Leaf (f x)"
| "tree_map f (Node kvs) = Node (map (map_prod id (tree_map f)) kvs)"

primrec leaves :: "'a pytree \<Rightarrow> 'a list" where
  "leaves (Leaf x) = [x]"
| "leaves (Node kvs) = concat (map snd (map (map_prod id leaves) kvs))"

subsection \<open>Modules, optimisers and train states\<close>

text \<open>
  The network modules that \<^verbatim>\<open>create\<close> builds are data: the layers with their sizes
  and options, as the source writes them. \<^verbatim>\<open>NormedLinear\<close> and \<^verbatim>\<open>Ensemble\<close> come from
  \<^verbatim>\<open>bmpc_jax.networks\<close>, \<^verbatim>\<open>nn.Dense\<close> and \<^verbatim>\<open>nn.Sequential\<close> from flax.
\<close>

datatype activation = Mish

datatype kernel_init = Zeros | Truncated_normal real

datatype dtype = Float16 | BFloat16 | Float32 | Float64

datatype layer =
    NormedLinear int "activation option" "real option" dtype
      \<comment> \<open>features, activation, dropout rate, dtype\<close>
  | Dense int kernel_init dtype
      \<comment> \<open>features, kernel initialiser, dtype\<close>

datatype flax_module =
    Sequential "layer list"
  | Ensemble "layer list" int
      \<comment> \<open>\<^verbatim>\<open>Ensemble(partial(nn.Sequential, layers), num=n)\<close>\<close>

datatype transformation = Zero_nans | Clip_by_global_norm real | Adamw real

datatype optimizer =
    Chain "transformation list"
  | No_update  \<comment> \<open>\<^verbatim>\<open>optax.GradientTransformation(lambda _: None, lambda _: None)\<close>\<close>

text \<open>
  \<^verbatim>\<open>TrainState\<close>: the forward function, the parameters and the optimiser chain.
  \<^verbatim>\<open>TrainState.create\<close> starts the step counter at 0.
\<close>

record ('i, 'o, 'p) train_state =
  step :: nat
  apply_fn :: "'p \<Rightarrow> 'i \<Rightarrow> error + 'o"
  params :: 'p
  tx :: optimizer

definition TrainState_create ::
  "('p \<Rightarrow> 'i \<Rightarrow> error + 'o) \<Rightarrow> 'p \<Rightarrow> optimizer \<Rightarrow> ('i, 'o, 'p) train_state" where
  "TrainState_create f p t = \<lparr>step = 0, apply_fn = f, params = p, tx = t\<rparr>"

text \<open>
  What \<^verbatim>\<open>create\<close> and the operations use of jax, flax and tensorflow-probability is a
  parameter of the model: key splitting, the initialiser and the forward function of a
  module, and the standard normal draws behind \<^verbatim>\<open>dist.sample(seed=key)\<close>.
  The initialiser takes the module, the \<^verbatim>\<open>params\<close> key, the \<^verbatim>\<open>dropout\<close> key when one
  is given, and the example input; it returns the \<^verbatim>\<open>['params']\<close> entry or raises.
\<close>

record ('k, 'p) flax =
  random_split :: "'k \<Rightarrow> nat \<Rightarrow> 'k list"
  module_init :: "flax_module \<Rightarrow> 'k \<Rightarrow> 'k option \<Rightarrow> array \<Rightarrow> error + 'p"
  module_apply :: "flax_module \<Rightarrow> 'p \<Rightarrow> array \<Rightarrow> error + array"
  ensemble_apply :: "flax_module \<Rightarrow> 'p \<Rightarrow> array \<times> 'k \<Rightarrow> error + array list"
  normal_sample :: "'k \<Rightarrow> nat \<Rightarrow> real"

subsection \<open>The world model\<close>

record ('k, 'p) world_model =
  encoder :: "(array pytree \<times> 'k, array, 'p) train_state"
  dynamics_model :: "(array, array, 'p) train_state"
  reward_model :: "(array, array, 'p) train_state"
  policy_model :: "(array, array, 'p) train_state"
  value_model :: "(array \<times> 'k, array list, 'p) train_state"
  target_value_model :: "(array \<times> 'k, array list, 'p) train_state"
  continue_model :: "(array, array, 'p) train_state option"
  action_dim :: int
  latent_dim :: int
  simnorm_dim :: int
  num_value_nets :: int
  num_bins :: int
  symlog_min :: real
  symlog_max :: real
  predict_continues :: bool
  symlog_obs :: bool

text \<open>The optimiser chain every trainable head gets.\<close>

definition head_tx :: "real \<Rightarrow> real \<Rightarrow> optimizer" where
  "head_tx max_grad_norm learning_rate =
     Chain [Zero_nans, Clip_by_global_norm max_grad_norm, Adamw learning_rate]"

text \<open>The five modules of \<^verbatim>\<open>create\<close>, as the source builds them.\<close>

definition dynamics_module :: "int \<Rightarrow> dtype \<Rightarrow> flax_module" where
  "dynamics_module latent_dim' dt = Sequential
     [NormedLinear latent_dim' (Some Mish) None dt,
      NormedLinear latent_dim' (Some Mish) None dt,
      NormedLinear latent_dim' None None dt]"

definition reward_module :: "int \<Rightarrow> int \<Rightarrow> dtype \<Rightarrow> flax_module" where
  "reward_module latent_dim' num_bins' dt = Sequential
     [NormedLinear latent_dim' (Some Mish) None dt,
      NormedLinear latent_dim' (Some Mish) None dt,
      Dense num_bins' Zeros dt]"

definition policy_module :: "int \<Rightarrow> int \<Rightarrow> dtype \<Rightarrow> flax_module" where
  "policy_module latent_dim' action_dim' dt = Sequential
     [NormedLinear latent_dim' (Some Mish) None dt,
      NormedLinear latent_dim' (Some Mish) None dt,
      Dense (2 * action_dim') (Truncated_normal (2 / 100)) dt]"

definition value_ensemble :: "int \<Rightarrow> real \<Rightarrow> int \<Rightarrow> int \<Rightarrow> dtype \<Rightarrow> flax_module" where
  "value_ensemble latent_dim' value_dropout num_bins' num_value_nets' dt = Ensemble
     [NormedLinear latent_dim' (Some Mish) (Some value_dropout) dt,
      NormedLinear latent_dim' (Some Mish) (Some value_dropout) dt,
      Dense num_bins' Zeros dt]
     num_value_nets'"

definition continue_module :: "int \<Rightarrow> dtype \<Rightarrow> flax_module" where
  "continue_module latent_dim' dt = Sequential
     [NormedLinear latent_dim' (Some Mish) None dt,
      NormedLinear latent_dim' (Some Mish) None dt,
      Dense 1 Zeros dt]"

text \<open>
  \<^verbatim>\<open>copy.deepcopy\<close> of a parameter tree: parameters are immutable values here, so the
  copy is the value itself and can share no mutable state with the original.
\<close>

definition deepcopy :: "'p \<Rightarrow> 'p" where
  "deepcopy p = p"

text \<open>
  \<^verbatim>\<open>WorldModel.create\<close>. The statements run in the source's order, and the first one
  that raises decides the result. \<^verbatim>\<open>tabulate\<close> only prints summaries and does not
  change the value returned. The source checks none of its arguments.
\<close>

definition create ::
  "('k, 'p) flax \<Rightarrow> int \<Rightarrow> (array pytree \<times> 'k, array, 'p) train_state \<Rightarrow> int \<Rightarrow> real \<Rightarrow>
   int \<Rightarrow> int \<Rightarrow> real \<Rightarrow> real \<Rightarrow> int \<Rightarrow> bool \<Rightarrow> bool \<Rightarrow> real \<Rightarrow> real \<Rightarrow> bool \<Rightarrow> dtype \<Rightarrow> 'k \<Rightarrow>
   error + ('k, 'p) world_model" where
  "create F action_dim' encoder' latent_dim' value_dropout num_value_nets' num_bins'
     symlog_min' symlog_max' simnorm_dim' predict_continues' symlog_obs'
     learning_rate max_grad_norm tabulate dt key =
   bind_err (unpack5 (random_split F key 5))
     (\<lambda>(dynamics_key, reward_key, value_key, policy_key, continue_key).
        bind_err (jnp_zeros (latent_dim' + action_dim')) (\<lambda>x0.
        bind_err (module_init F (dynamics_module latent_dim' dt) dynamics_key None x0) (\<lambda>dyn_p.
        bind_err (jnp_zeros (latent_dim' + action_dim')) (\<lambda>x1.
        bind_err (module_init F (reward_module latent_dim' num_bins' dt) reward_key None x1) (\<lambda>rew_p.
        bind_err (jnp_zeros latent_dim') (\<lambda>x2.
        bind_err (module_init F (policy_module latent_dim' action_dim' dt) policy_key None x2) (\<lambda>pol_p.
        bind_err (unpack2 (random_split F value_key 2))
          (\<lambda>(value_param_key, value_dropout_key).
             bind_err (jnp_zeros latent_dim') (\<lambda>x3.
             bind_err (module_init F
                 (value_ensemble latent_dim' value_dropout num_bins' num_value_nets' dt)
                 value_param_key (Some value_dropout_key) x3) (\<lambda>val_p.
             let value_model' = TrainState_create
                   (ensemble_apply F
                      (value_ensemble latent_dim' value_dropout num_bins' num_value_nets' dt))
                   val_p (head_tx max_grad_norm learning_rate);
                 target_value_model' = TrainState_create
                   (ensemble_apply F
                      (value_ensemble latent_dim' value_dropout num_bins' num_value_nets' dt))
                   (deepcopy (params value_model')) No_update
             in
             bind_err
               (if predict_continues' then
                  bind_err (jnp_zeros latent_dim') (\<lambda>x4.
                  bind_err (module_init F (continue_module latent_dim' dt) continue_key None x4)
                    (\<lambda>con_p.
                  Inr (Some (TrainState_create
                    (module_apply F (continue_module latent_dim' dt))
                    con_p (head_tx max_grad_norm learning_rate)))))
                else Inr None) (\<lambda>continue_model'.
             Inr \<lparr>encoder = encoder',
                  dynamics_model = TrainState_create
                    (module_apply F (dynamics_module latent_dim' dt))
                    dyn_p (head_tx max_grad_norm learning_rate),
                  reward_model = TrainState_create
                    (module_apply F (reward_module latent_dim' num_bins' dt))
                    rew_p (head_tx max_grad_norm learning_rate),
                  policy_model = TrainState_create
                    (module_apply F (policy_module latent_dim' action_dim' dt))
                    pol_p (head_tx max_grad_norm learning_rate),
                  value_model = value_model',
                  target_value_model = target_value_model',
                  continue_model = continue_model',
                  action_dim = action_dim',
                  latent_dim = latent_dim',
                  simnorm_dim = simnorm_dim',
                  num_value_nets = num_value_nets',
                  num_bins = num_bins',
                  symlog_min = symlog_min',
                  symlog_max = symlog_max',
                  predict_continues = predict_continues',
                  symlog_obs = symlog_obs'\<rparr>)))))))))))"

subsection \<open>Helpers of bmpc\_jax.common\<close>

text \<open>
  Modelled from the spec: \<^verbatim>\<open>symlog\<close> of \<^verbatim>\<open>bmpc_jax.common.util\<close> is not among the
  sources. The glossary gives it as \<open>sign(x) * log(1 + |x|)\<close>; \<open>symexp\<close> is its inverse.
\<close>

definition symlog :: "real \<Rightarrow> real" where
  "symlog x = sgn x * ln (1 + \<bar>x\<bar>)"

definition symexp :: "real \<Rightarrow> real" where
  "symexp x = sgn x * (exp \<bar>x\<bar> - 1)"

definition softmax :: "array \<Rightarrow> array" where
  "softmax xs = map (\<lambda>x. exp x / sum_list (map exp xs)) xs"

text \<open>
  Modelled from the spec: \<^verbatim>\<open>simnorm\<close> of \<^verbatim>\<open>bmpc_jax.common.activations\<close> is not among
  the sources. Section 4.2: partition the vector into consecutive groups of the group
  size, apply softmax within each group, concatenate in the original order. The spec
  states the precondition that the length is divisible by the group size and that it
  is not checked per call; outside it this model lets the last group be shorter, and a
  group size that is not positive gives no group.
\<close>

function groups :: "nat \<Rightarrow> 'a list \<Rightarrow> 'a list list" where
  "groups n xs = (if n = 0 \<or> xs = [] then [] else take n xs # groups n (drop n xs))"
  by pat_completeness auto
termination
  by (relation "measure (\<lambda>(n, xs). length xs)") auto

definition simnorm :: "array \<Rightarrow> int \<Rightarrow> array" where
  "simnorm z simplex_dim = concat (map softmax (groups (nat simplex_dim) z))"

text \<open>
  Modelled from the spec: \<^verbatim>\<open>two_hot_inv\<close> of \<^verbatim>\<open>bmpc_jax.common.util\<close> is not among
  the sources. Section 4.1: softmax over the logits; \<open>num_bins\<close> equally spaced bin
  centres covering the log-compressed version of \<open>[low, high]\<close>, that is from
  \<open>symlog low\<close> to \<open>symlog high\<close>; the probability-weighted sum of the centres; the
  inverse of the log-compression. With one bin the only centre is the lower end, so
  that no spacing is computed. Section 7: shapes that do not fit fail, they are
  neither broadcast nor truncated.
\<close>

definition bin_centers :: "real \<Rightarrow> real \<Rightarrow> int \<Rightarrow> array" where
  "bin_centers low high n =
     map (\<lambda>i. if n = 1 then symlog low
              else symlog low + real i * ((symlog high - symlog low) / real_of_int (n - 1)))
       [0..<nat n]"

definition two_hot_inv :: "array \<Rightarrow> real \<Rightarrow> real \<Rightarrow> int \<Rightarrow> error + real" where
  "two_hot_inv logits low high n =
     (if int (length logits) \<noteq> n then Inl ShapeMismatch
      else Inr (symexp (sum_list (map2 (*) (softmax logits) (bin_centers low high n)))))"

text \<open>On a stack of logit vectors the decoding works on the last axis: row by row.\<close>

fun two_hot_inv_rows :: "array list \<Rightarrow> real \<Rightarrow> real \<Rightarrow> int \<Rightarrow> error + array" where
  "two_hot_inv_rows [] low high n = Inr []"
| "two_hot_inv_rows (l # ls) low high n =
     bind_err (two_hot_inv l low high n) (\<lambda>v.
     bind_err (two_hot_inv_rows ls low high n) (\<lambda>vs. Inr (v # vs)))"

subsection \<open>The operations of the world model\<close>

definition MIN_LOG_STD :: real where
  "MIN_LOG_STD = - 5"

definition MAX_LOG_STD :: real where
  "MAX_LOG_STD = 1"

definition encode ::
  "('k, 'p) world_model \<Rightarrow> array pytree \<Rightarrow> 'p \<Rightarrow> 'k \<Rightarrow> error + array" where
  "encode self obs ps key =
     (let obs' = (if symlog_obs self then tree_map (map symlog) obs else obs) in
      bind_err (apply_fn (encoder self) ps (obs', key)) (\<lambda>z.
      Inr (simnorm z (simnorm_dim self))))"

definition next_latent ::
  "('k, 'p) world_model \<Rightarrow> array \<Rightarrow> array \<Rightarrow> 'p \<Rightarrow> error + array" where
  "next_latent self z a ps =
     bind_err (apply_fn (dynamics_model self) ps (z @ a)) (\<lambda>z'.
     Inr (simnorm z' (simnorm_dim self)))"

definition reward ::
  "('k, 'p) world_model \<Rightarrow> array \<Rightarrow> array \<Rightarrow> 'p \<Rightarrow> error + (real \<times> array)" where
  "reward self z a ps =
     (let z' = z @ a in
      bind_err (apply_fn (reward_model self) ps z') (\<lambda>logits.
      bind_err (two_hot_inv logits (symlog_min self) (symlog_max self) (num_bins self))
        (\<lambda>r. Inr (r, logits))))"

text \<open>\<^verbatim>\<open>jnp.split(x, 2, axis=-1)\<close>: two halves; raises when the length is odd.\<close>

definition jnp_split2 :: "array \<Rightarrow> error + (array \<times> array)" where
  "jnp_split2 xs =
     (if even (length xs)
      then Inr (take (length xs div 2) xs, drop (length xs div 2) xs)
      else Inl ValueError)"

definition clip :: "real \<Rightarrow> real \<Rightarrow> real \<Rightarrow> real" where
  "clip lo hi x = min (max x lo) hi"

text \<open>
  \<^verbatim>\<open>tfd.MultivariateNormalDiag(loc, scale_diag)\<close>. A sample is
  \<open>loc + scale_diag * eps\<close> with \<open>eps\<close> the standard normal draws of the key. The
  log-probability at \<open>x\<close> sums, over the coordinates, the standard normal
  log-density at \<open>(x - loc) / scale\<close> minus \<open>log |scale|\<close>. With a zero scale the
  floating-point result is not a number (\<open>0 / 0\<close>, or \<open>inf - inf\<close>): that is \<open>None\<close>.
\<close>

record mvn_diag =
  loc :: array
  scale_diag :: array

definition mvn_sample :: "('k \<Rightarrow> nat \<Rightarrow> real) \<Rightarrow> mvn_diag \<Rightarrow> 'k \<Rightarrow> array" where
  "mvn_sample eps d key =
     map (\<lambda>i. loc d ! i + scale_diag d ! i * eps key i) [0..<length (loc d)]"

definition normal_log_prob :: "real \<Rightarrow> real \<Rightarrow> real \<Rightarrow> real" where
  "normal_log_prob m s x = - (((x - m) / s)\<^sup>2) / 2 - ln (2 * pi) / 2 - ln \<bar>s\<bar>"

definition mvn_log_prob :: "mvn_diag \<Rightarrow> array \<Rightarrow> real option" where
  "mvn_log_prob d x =
     (if 0 \<in> set (scale_diag d) then None
      else Some (\<Sum>i\<leftarrow>[0..<length (loc d)].
                   normal_log_prob (loc d ! i) (scale_diag d ! i) (x ! i)))"

definition sample_actions ::
  "('k, 'p) flax \<Rightarrow> ('k, 'p) world_model \<Rightarrow> array \<Rightarrow> 'p \<Rightarrow> real \<Rightarrow> 'k \<Rightarrow>
   error + (array \<times> array \<times> array \<times> real option)" where
  "sample_actions F self z ps std_scale key =
     bind_err (apply_fn (policy_model self) ps z) (\<lambda>out.
     bind_err (jnp_split2 out) (\<lambda>(mean_raw, log_std_raw).
     let mean = map tanh mean_raw;
         log_std = map (\<lambda>r. MIN_LOG_STD + (MAX_LOG_STD - MIN_LOG_STD) * (1 / 2) * (tanh r + 1))
                     log_std_raw;
         std = map (\<lambda>l. std_scale * exp l) log_std;
         dist = \<lparr>loc = mean, scale_diag = std\<rparr>;
         action = mvn_sample (normal_sample F) dist key;
         log_probs = mvn_log_prob dist action
     in Inr (map (clip (- 1) 1) action, mean, log_std, log_probs)))"

definition V ::
  "('k, 'p) world_model \<Rightarrow> array \<Rightarrow> 'p \<Rightarrow> 'k \<Rightarrow> error + (array \<times> array list)" where
  "V self z ps key =
     bind_err (apply_fn (value_model self) ps (z, key)) (\<lambda>logits.
     bind_err (two_hot_inv_rows logits (symlog_min self) (symlog_max self) (num_bins self))
       (\<lambda>v. Inr (v, logits)))"

subsection \<open>The continuation head, and a concrete instance\<close>

text \<open>
  The \<^verbatim>\<open>if predict_continues: ... else: continue_model = None\<close> block of \<^verbatim>\<open>create\<close> on
  its own, to state what \<^verbatim>\<open>create\<close> returns.
\<close>

definition continue_head ::
  "('k, 'p) flax \<Rightarrow> int \<Rightarrow> bool \<Rightarrow> real \<Rightarrow> real \<Rightarrow> dtype \<Rightarrow> 'k \<Rightarrow>
   error + (array, array, 'p) train_state option" where
  "continue_head F ld pc lr mg dt ck =
     (if pc then
        bind_err (jnp_zeros ld) (\<lambda>x4.
        bind_err (module_init F (continue_module ld dt) ck None x4) (\<lambda>con_p.
        Inr (Some (TrainState_create (module_apply F (continue_module ld dt))
                     con_p (head_tx mg lr)))))
      else Inr None)"

text \<open>
  An instance of the library interface on which the model runs: keys are integers,
  a split numbers the sub-keys, the parameters of a module are the key that
  seeded them, every network computes the zero vector of its output width (as a final
  layer with a zero kernel does), and the \<open>i\<close>-th normal draw of key \<open>k\<close> is \<open>k + i\<close>.
  The encoder of the instance flattens the observation.
\<close>

fun layer_features :: "layer \<Rightarrow> int" where
  "layer_features (NormedLinear n _ _ _) = n"
| "layer_features (Dense n _ _) = n"

fun out_width :: "layer list \<Rightarrow> nat" where
  "out_width [] = 0"
| "out_width [l] = nat (layer_features l)"
| "out_width (l # ls) = out_width ls"

definition zero_flax :: "(int, int) flax" where
  "zero_flax =
     \<lparr>random_split = (\<lambda>k n. map (\<lambda>i. 10 * k + int i + 1) [0..<n]),
      module_init = (\<lambda>m k d x. Inr k),
      module_apply = (\<lambda>m p x.
         case m of Sequential ls \<Rightarrow> Inr (replicate (out_width ls) 0)
                 | Ensemble ls n \<Rightarrow> Inl ShapeMismatch),
      ensemble_apply = (\<lambda>m p xk.
         case m of Sequential ls \<Rightarrow> Inl ShapeMismatch
                 | Ensemble ls n \<Rightarrow> Inr (replicate (nat n) (replicate (out_width ls) 0))),
      normal_sample = (\<lambda>k i. real_of_int k + real i)\<rparr>"

definition flat_encoder :: "(array pytree \<times> int, array, int) train_state" where
  "flat_encoder = TrainState_create (\<lambda>p ok. Inr (concat (leaves (fst ok)))) 0 (Chain [])"

text \<open>
  The model that \<^verbatim>\<open>create\<close> builds on the instance for the configuration of the spec's
  end-to-end example: \<open>latent_dim = 8\<close>, \<open>simnorm_dim = 4\<close>, \<open>action_dim = 2\<close>,
  \<open>num_bins = 11\<close>, \<open>symlog_min = -10\<close>, \<open>symlog_max = 10\<close>, \<open>num_value_nets = 3\<close>.
\<close>

definition example_model :: "bool \<Rightarrow> bool \<Rightarrow> (int, int) world_model" where
  "example_model pc so =
     projr (create zero_flax 2 flat_encoder 8 (1 / 100) 3 11 (- 10) 10 4 pc so
              (3 / 10000) 20 False Float32 0)"

section \<open>Properties of \<^verbatim>\<open>create\<close>\<close>

lemma bind_err_Inr_iff: "bind_err m f = Inr y \<longleftrightarrow> (\<exists>x. m = Inr x \<and> f x = Inr y)"
  by (cases m) (simp_all add: bind_err_def)

lemma bind_err_Inr [simp]: "bind_err (Inr x) f = f x"
  by (simp add: bind_err_def)

lemma bind_err_Inl [simp]: "bind_err (Inl e) f = Inl e"
  by (simp add: bind_err_def)

lemma jnp_zeros_Inr_iff: "jnp_zeros n = Inr x \<longleftrightarrow> 0 \<le> n \<and> x = replicate (nat n) 0"
  by (auto simp: jnp_zeros_def)

lemma unpack2_Inr_iff: "unpack2 xs = Inr (a, b) \<longleftrightarrow> xs = [a, b]"
  by (cases xs rule: unpack2.cases) auto

lemma unpack5_Inr_iff: "unpack5 xs = Inr (a, b, c, d, e) \<longleftrightarrow> xs = [a, b, c, d, e]"
  by (cases xs rule: unpack5.cases) auto

text \<open>
  When \<^verbatim>\<open>create\<close> returns, and what: the two key splits have the lengths the source
  unpacks, the sizes of the example inputs are not negative, every initialiser
  returns, and the model holds the heads and the configuration as given.
\<close>

lemma create_Inr_iff:
  "create F ad enc ld vd nv nb smin smax sd pc so lr mg tab dt key = Inr wm \<longleftrightarrow>
   (\<exists>dk rk vk pk ck vpk vdk dyn_p rew_p pol_p val_p cm.
      random_split F key 5 = [dk, rk, vk, pk, ck] \<and>
      0 \<le> ld + ad \<and> 0 \<le> ld \<and>
      module_init F (dynamics_module ld dt) dk None (replicate (nat (ld + ad)) 0) = Inr dyn_p \<and>
      module_init F (reward_module ld nb dt) rk None (replicate (nat (ld + ad)) 0) = Inr rew_p \<and>
      module_init F (policy_module ld ad dt) pk None (replicate (nat ld) 0) = Inr pol_p \<and>
      random_split F vk 2 = [vpk, vdk] \<and>
      module_init F (value_ensemble ld vd nb nv dt) vpk (Some vdk) (replicate (nat ld) 0)
        = Inr val_p \<and>
      continue_head F ld pc lr mg dt ck = Inr cm \<and>
      wm = \<lparr>encoder = enc,
            dynamics_model = TrainState_create (module_apply F (dynamics_module ld dt))
              dyn_p (head_tx mg lr),
            reward_model = TrainState_create (module_apply F (reward_module ld nb dt))
              rew_p (head_tx mg lr),
            policy_model = TrainState_create (module_apply F (policy_module ld ad dt))
              pol_p (head_tx mg lr),
            value_model = TrainState_create
              (ensemble_apply F (value_ensemble ld vd nb nv dt)) val_p (head_tx mg lr),
            target_value_model = TrainState_create
              (ensemble_apply F (value_ensemble ld vd nb nv dt)) val_p No_update,
            continue_model = cm,
            action_dim = ad, latent_dim = ld, simnorm_dim = sd, num_value_nets = nv,
            num_bins = nb, symlog_min = smin, symlog_max = smax,
            predict_continues = pc, symlog_obs = so\<rparr>)"
  unfolding create_def continue_head_def
  apply (simp add: bind_err_Inr_iff jnp_zeros_Inr_iff unpack5_Inr_iff unpack2_Inr_iff
      deepcopy_def Let_def TrainState_create_def cong: if_cong)
  apply (rule iffI)
   apply (elim exE conjE)
   apply (auto)[1]
  apply (elim exE conjE)
  apply auto
  done

lemma create_without_continue:
  assumes "create F ad enc ld vd nv nb smin smax sd True so lr mg tab dt key = Inr m"
  shows "create F ad enc ld vd nv nb smin smax sd False so lr mg tab dt key
         = Inr (m\<lparr>continue_model := None, predict_continues := False\<rparr>)"
  using assms by (auto simp: create_Inr_iff continue_head_def)

subsection \<open>The instance\<close>

lemma zero_flax_simps [simp]:
  "random_split zero_flax k n = map (\<lambda>i. 10 * k + int i + 1) [0..<n]"
  "module_init zero_flax m k d x = Inr k"
  "module_apply zero_flax (Sequential ls) p x = Inr (replicate (out_width ls) 0)"
  "ensemble_apply zero_flax (Ensemble ls num) p xk
     = Inr (replicate (nat num) (replicate (out_width ls) 0))"
  "normal_sample zero_flax k i = real_of_int k + real i"
  by (simp_all add: zero_flax_def)

lemma upt_small: "[0..<5] = [0, 1, 2, 3, 4]" "[0..<2] = [0, 1]"
  by (simp_all add: upt_rec)

lemma example_model_eq:
  "example_model pc so =
     \<lparr>encoder = flat_encoder,
      dynamics_model = TrainState_create (module_apply zero_flax (dynamics_module 8 Float32))
        1 (head_tx 20 (3 / 10000)),
      reward_model = TrainState_create (module_apply zero_flax (reward_module 8 11 Float32))
        2 (head_tx 20 (3 / 10000)),
      policy_model = TrainState_create (module_apply zero_flax (policy_module 8 2 Float32))
        4 (head_tx 20 (3 / 10000)),
      value_model = TrainState_create
        (ensemble_apply zero_flax (value_ensemble 8 (1 / 100) 11 3 Float32))
        31 (head_tx 20 (3 / 10000)),
      target_value_model = TrainState_create
        (ensemble_apply zero_flax (value_ensemble 8 (1 / 100) 11 3 Float32)) 31 No_update,
      continue_model =
        (if pc then Some (TrainState_create (module_apply zero_flax (continue_module 8 Float32))
                            5 (head_tx 20 (3 / 10000)))
         else None),
      action_dim = 2, latent_dim = 8, simnorm_dim = 4, num_value_nets = 3,
      num_bins = 11, symlog_min = - 10, symlog_max = 10,
      predict_continues = pc, symlog_obs = so\<rparr>"
  by (simp add: example_model_def create_def upt_small jnp_zeros_def Let_def deepcopy_def
      TrainState_create_def)

lemma create_example:
  "create zero_flax 2 flat_encoder 8 (1 / 100) 3 11 (- 10) 10 4 pc so
     (3 / 10000) 20 False Float32 0 = Inr (example_model pc so)"
proof -
  have "\<not> isl (create zero_flax 2 flat_encoder 8 (1 / 100) 3 11 (- 10) 10 4 pc so
     (3 / 10000) 20 False Float32 0)"
    by (simp add: create_def upt_small jnp_zeros_def Let_def)
  then show ?thesis
    by (simp add: example_model_def)
qed

lemma example_model_config [simp]:
  "latent_dim (example_model pc so) = 8"
  "simnorm_dim (example_model pc so) = 4"
  "action_dim (example_model pc so) = 2"
  "num_bins (example_model pc so) = 11"
  "num_value_nets (example_model pc so) = 3"
  "symlog_min (example_model pc so) = - 10"
  "symlog_max (example_model pc so) = 10"
  "symlog_obs (example_model pc so) = so"
  "predict_continues (example_model pc so) = pc"
  "encoder (example_model pc so) = flat_encoder"
  by (simp_all add: example_model_eq)

lemma example_model_heads [simp]:
  "apply_fn (dynamics_model (example_model pc so)) p x = Inr (replicate 8 0)"
  "apply_fn (reward_model (example_model pc so)) p x = Inr (replicate 11 0)"
  "apply_fn (policy_model (example_model pc so)) p x = Inr (replicate 4 0)"
  "apply_fn (value_model (example_model pc so)) p xk = Inr (replicate 3 (replicate 11 0))"
  "apply_fn (encoder (example_model pc so)) p ok = Inr (concat (leaves (fst ok)))"
  by (simp_all add: example_model_eq TrainState_create_def dynamics_module_def
      reward_module_def policy_module_def value_ensemble_def flat_encoder_def)

lemma example_model_params [simp]:
  "params (dynamics_model (example_model pc so)) = 1"
  "params (reward_model (example_model pc so)) = 2"
  "params (policy_model (example_model pc so)) = 4"
  "params (value_model (example_model pc so)) = 31"
  "params (target_value_model (example_model pc so)) = 31"
  by (simp_all add: example_model_eq TrainState_create_def)

subsection \<open>The configuration is not validated\<close>

text \<open>
  C1 as the spec states it: \<^verbatim>\<open>create\<close> fails whenever \<open>latent_dim\<close> is not divisible by
  \<open>simnorm_dim\<close> or \<open>num_bins < 2\<close>. The source has no such check. On the instance, with
  \<open>latent_dim = 7\<close>, \<open>simnorm_dim = 4\<close> and \<open>num_bins = 1\<close>, \<^verbatim>\<open>create\<close> returns a model.
\<close>

theorem create_invalid_configuration_returns:
  "\<not> (4::int) dvd 7 \<and> (1::int) < 2 \<and>
   \<not> isl (create zero_flax 2 flat_encoder 7 (1 / 100) 3 1 (- 10) 10 4 False False
            (3 / 10000) 20 False Float32 0)"
  by (simp add: create_def upt_small jnp_zeros_def Let_def)

text \<open>
  C1, amended: \<^verbatim>\<open>create\<close> checks neither the divisibility of \<open>latent_dim\<close> by
  \<open>simnorm_dim\<close> nor \<open>num_bins\<close>. Whenever the two key splits have the lengths that the
  source unpacks, the sizes of the example inputs are not negative and the head
  initialisers return, \<^verbatim>\<open>create\<close> returns a model, and the model stores \<open>latent_dim\<close>,
  \<open>simnorm_dim\<close> and \<open>num_bins\<close> as they were given.
\<close>

theorem create_checks_no_configuration:
  assumes "random_split F key 5 = [dk, rk, vk, pk, ck]"
    and "random_split F vk 2 = [vpk, vdk]"
    and "0 \<le> ld + ad" and "0 \<le> ld"
    and "module_init F (dynamics_module ld dt) dk None (replicate (nat (ld + ad)) 0) = Inr dyn_p"
    and "module_init F (reward_module ld nb dt) rk None (replicate (nat (ld + ad)) 0) = Inr rew_p"
    and "module_init F (policy_module ld ad dt) pk None (replicate (nat ld) 0) = Inr pol_p"
    and "module_init F (value_ensemble ld vd nb nv dt) vpk (Some vdk) (replicate (nat ld) 0)
           = Inr val_p"
    and "continue_head F ld pc lr mg dt ck = Inr cm"
  shows "\<not> isl (create F ad enc ld vd nv nb smin smax sd pc so lr mg tab dt key) \<and>
         latent_dim (projr (create F ad enc ld vd nv nb smin smax sd pc so lr mg tab dt key)) = ld \<and>
         simnorm_dim (projr (create F ad enc ld vd nv nb smin smax sd pc so lr mg tab dt key)) = sd \<and>
         num_bins (projr (create F ad enc ld vd nv nb smin smax sd pc so lr mg tab dt key)) = nb"
proof -
  from assms obtain wm where
    "create F ad enc ld vd nv nb smin smax sd pc so lr mg tab dt key = Inr wm"
    "latent_dim wm = ld" "simnorm_dim wm = sd" "num_bins wm = nb"
    unfolding create_Inr_iff by fastforce
  then show ?thesis by simp
qed

theorem create_checks_no_configuration_witness:
  "random_split zero_flax 0 5 = [1, 2, 3, 4, 5] \<and>
   random_split zero_flax 3 2 = [31, 32] \<and>
   (0::int) \<le> 7 + 2 \<and> (0::int) \<le> 7 \<and>
   module_init zero_flax (dynamics_module 7 Float32) 1 None (replicate (nat (7 + 2)) 0) = Inr 1 \<and>
   module_init zero_flax (reward_module 7 1 Float32) 2 None (replicate (nat (7 + 2)) 0) = Inr 2 \<and>
   module_init zero_flax (policy_module 7 2 Float32) 4 None (replicate (nat 7) 0) = Inr 4 \<and>
   module_init zero_flax (value_ensemble 7 (1 / 100) 1 3 Float32) 31 (Some 32)
     (replicate (nat 7) 0) = Inr 31 \<and>
   continue_head zero_flax 7 False (3 / 10000) 20 Float32 5 = Inr None \<and>
   \<not> (4::int) dvd 7 \<and> (1::int) < 2 \<and>
   \<not> isl (create zero_flax 2 flat_encoder 7 (1 / 100) 3 1 (- 10) 10 4 False False
            (3 / 10000) 20 False Float32 0) \<and>
   latent_dim (projr (create zero_flax 2 flat_encoder 7 (1 / 100) 3 1 (- 10) 10 4 False False
            (3 / 10000) 20 False Float32 0)) = 7 \<and>
   simnorm_dim (projr (create zero_flax 2 flat_encoder 7 (1 / 100) 3 1 (- 10) 10 4 False False
            (3 / 10000) 20 False Float32 0)) = 4 \<and>
   num_bins (projr (create zero_flax 2 flat_encoder 7 (1 / 100) 3 1 (- 10) 10 4 False False
            (3 / 10000) 20 False Float32 0)) = 1"
proof -
  have h: "random_split zero_flax 0 5 = [1, 2, 3, 4, 5]"
    "random_split zero_flax 3 2 = [31, 32]"
    "(0::int) \<le> 7 + 2" "(0::int) \<le> 7"
    "module_init zero_flax (dynamics_module 7 Float32) 1 None (replicate (nat (7 + 2)) 0) = Inr 1"
    "module_init zero_flax (reward_module 7 1 Float32) 2 None (replicate (nat (7 + 2)) 0) = Inr 2"
    "module_init zero_flax (policy_module 7 2 Float32) 4 None (replicate (nat 7) 0) = Inr 4"
    "module_init zero_flax (value_ensemble 7 (1 / 100) 1 3 Float32) 31 (Some 32)
       (replicate (nat 7) 0) = Inr 31"
    "continue_head zero_flax 7 False (3 / 10000) 20 Float32 5 = Inr None"
    by (simp_all add: upt_small continue_head_def)
  from create_checks_no_configuration [OF h, of flat_encoder "- 10" 10 4 False False]
  show ?thesis using h by simp
qed

subsection \<open>The target value head starts as a copy\<close>

text \<open>
  C5: immediately after \<^verbatim>\<open>create\<close> returns, the parameters of the target value head
  equal those of the value ensemble. The target is an exact copy: it has the same
  forward function, and its optimiser applies no update. Parameters are immutable
  values, so the copy shares no mutable state with the original.
\<close>

theorem target_value_params_copy:
  assumes "create F ad enc ld vd nv nb smin smax sd pc so lr mg tab dt key = Inr wm"
  shows "params (target_value_model wm) = params (value_model wm) \<and>
         apply_fn (target_value_model wm) = apply_fn (value_model wm) \<and>
         tx (target_value_model wm) = No_update"
  using assms by (auto simp: create_Inr_iff TrainState_create_def)

theorem target_value_params_copy_witness:
  "create zero_flax 2 flat_encoder 8 (1 / 100) 3 11 (- 10) 10 4 False False
     (3 / 10000) 20 False Float32 0 = Inr (example_model False False) \<and>
   params (target_value_model (example_model False False)) = 31 \<and>
   params (value_model (example_model False False)) = 31 \<and>
   apply_fn (target_value_model (example_model False False))
     = apply_fn (value_model (example_model False False)) \<and>
   tx (target_value_model (example_model False False)) = No_update"
  using target_value_params_copy [OF create_example [of False False]]
    create_example [of False False] by simp

subsection \<open>The continuation flag does not reach the other heads\<close>

text \<open>
  C10: two calls of \<^verbatim>\<open>create\<close> that differ only in \<open>predict_continues\<close> return the same
  dynamics, reward, policy, value and target value heads. The root key is split into
  five sub-keys in the order dynamics, reward, value, policy, continue, whatever the
  flag: each head is initialised from its own sub-key (the value ensemble from the
  two halves of the third), and the fifth is used by the continuation head only.
\<close>

theorem create_heads_independent_of_predict_continues:
  assumes "create F ad enc ld vd nv nb smin smax sd pc so lr mg tab dt key = Inr m1"
    and "create F ad enc ld vd nv nb smin smax sd pc' so lr mg tab dt key = Inr m2"
    and "random_split F key 5 = [dk, rk, vk, pk, ck]"
    and "random_split F vk 2 = [vpk, vdk]"
  shows "dynamics_model m1 = dynamics_model m2 \<and>
         reward_model m1 = reward_model m2 \<and>
         policy_model m1 = policy_model m2 \<and>
         value_model m1 = value_model m2 \<and>
         target_value_model m1 = target_value_model m2 \<and>
         module_init F (dynamics_module ld dt) dk None (replicate (nat (ld + ad)) 0)
           = Inr (params (dynamics_model m1)) \<and>
         module_init F (reward_module ld nb dt) rk None (replicate (nat (ld + ad)) 0)
           = Inr (params (reward_model m1)) \<and>
         module_init F (policy_module ld ad dt) pk None (replicate (nat ld) 0)
           = Inr (params (policy_model m1)) \<and>
         module_init F (value_ensemble ld vd nb nv dt) vpk (Some vdk) (replicate (nat ld) 0)
           = Inr (params (value_model m1)) \<and>
         params (target_value_model m1) = params (value_model m1)"
  using assms by (auto simp: create_Inr_iff TrainState_create_def)

theorem create_heads_independent_of_predict_continues_witness:
  "create zero_flax 2 flat_encoder 8 (1 / 100) 3 11 (- 10) 10 4 True False
     (3 / 10000) 20 False Float32 0 = Inr (example_model True False) \<and>
   create zero_flax 2 flat_encoder 8 (1 / 100) 3 11 (- 10) 10 4 False False
     (3 / 10000) 20 False Float32 0 = Inr (example_model False False) \<and>
   random_split zero_flax 0 5 = [1, 2, 3, 4, 5] \<and>
   random_split zero_flax 3 2 = [31, 32] \<and>
   dynamics_model (example_model True False) = dynamics_model (example_model False False) \<and>
   reward_model (example_model True False) = reward_model (example_model False False) \<and>
   policy_model (example_model True False) = policy_model (example_model False False) \<and>
   value_model (example_model True False) = value_model (example_model False False) \<and>
   target_value_model (example_model True False)
     = target_value_model (example_model False False) \<and>
   continue_model (example_model True False) \<noteq> continue_model (example_model False False)"
proof -
  have s: "random_split zero_flax 0 5 = [1, 2, 3, 4, 5]"
    "random_split zero_flax 3 2 = [31, 32]"
    by (simp_all add: upt_small)
  have c: "continue_model (example_model True False)
      \<noteq> continue_model (example_model False False)"
    by (simp add: example_model_eq)
  from create_heads_independent_of_predict_continues
    [OF create_example [of True False] create_example [of False False] s]
  show ?thesis using create_example s c by simp
qed

end
